theory Spec2Isabelle
  imports
    Complex_Main
    "HOL-Library.List_Lexorder"
    "HOL-Library.Char_ord"
    "HOL-Library.Product_Lexorder"
    "HOL-Library.Multiset"
begin

section \<open>Sales analytics of \<open>ui_builder\<close>: data model\<close>

text \<open>
  The two modules \<open>data_viz.py\<close> and \<open>insights.py\<close> compute descriptive statistics
  over a pandas frame with the columns \<open>date\<close>, \<open>sales\<close> and, optionally,
  \<open>store_id\<close>, \<open>store_name\<close>, \<open>item_id\<close>, \<open>item_name\<close>, \<open>category\<close>.

  A calendar date is the triple (year, month, day); the lexicographic order on triples is
  the chronological order that pandas uses when it sorts group keys.  A row carries one
  field per column the code ever reads or writes (\<open>day_of_week\<close> is the column the
  code adds to a copy).  Which columns a frame really has is recorded in \<open>columns\<close>;
  the field of an absent column is never read.  Every row has a date and a numeric
  amount of sales: the input has no missing values, and the string columns hold strings.
\<close>

type_synonym date = "int \<times> nat \<times> nat"

record row =
  date :: date
  sales :: rat
  store_id :: string
  store_name :: string
  item_id :: string
  item_name :: string
  category :: string
  day_of_week :: string

record frame =
  columns :: "string list"
  rows :: "row list"

subsection \<open>Floating-point values\<close>

text \<open>
  The \<open>sales\<close> column is float64.  The model keeps the three special values of IEEE
  arithmetic that the code can produce (a missing cell or \<open>0/0\<close> is \<open>NaN\<close>, a
  non-zero number divided by zero is an infinity) and computes finite values exactly, as
  rationals: rounding error of the binary representation is not modelled, and a zero
  divisor is taken as \<open>+0.0\<close>.
\<close>

datatype fnum = Fin rat | PosInf | NegInf | NaN

fun fneg :: "fnum \<Rightarrow> fnum" where
  "fneg (Fin a) = Fin (- a)"
| "fneg PosInf = NegInf"
| "fneg NegInf = PosInf"
| "fneg NaN = NaN"

fun fadd :: "fnum \<Rightarrow> fnum \<Rightarrow> fnum" where
  "fadd NaN y = NaN"
| "fadd x NaN = NaN"
| "fadd (Fin a) (Fin b) = Fin (a + b)"
| "fadd PosInf NegInf = NaN"
| "fadd NegInf PosInf = NaN"
| "fadd PosInf y = PosInf"
| "fadd x PosInf = PosInf"
| "fadd NegInf y = NegInf"
| "fadd x NegInf = NegInf"

definition fsub :: "fnum \<Rightarrow> fnum \<Rightarrow> fnum" where
  "fsub x y = fadd x (fneg y)"

text \<open>The sign of a value that is not \<open>NaN\<close>: \<open>-1\<close>, \<open>0\<close> or \<open>1\<close>.\<close>

fun fsgn :: "fnum \<Rightarrow> int" where
  "fsgn (Fin a) = (if a = 0 then 0 else if 0 < a then 1 else - 1)"
| "fsgn PosInf = 1"
| "fsgn NegInf = - 1"
| "fsgn NaN = 0"

definition finf :: "int \<Rightarrow> fnum" where
  "finf s = (if s = 0 then NaN else if 0 < s then PosInf else NegInf)"

fun fmul :: "fnum \<Rightarrow> fnum \<Rightarrow> fnum" where
  "fmul NaN y = NaN"
| "fmul x NaN = NaN"
| "fmul (Fin a) (Fin b) = Fin (a * b)"
| "fmul x y = finf (fsgn x * fsgn y)"

fun fdiv :: "fnum \<Rightarrow> fnum \<Rightarrow> fnum" where
  "fdiv NaN y = NaN"
| "fdiv x NaN = NaN"
| "fdiv (Fin a) (Fin b) = (if b = 0 then finf (fsgn (Fin a)) else Fin (a / b))"
| "fdiv (Fin a) y = Fin 0"
| "fdiv x (Fin b) = finf (fsgn x * (if b < 0 then - 1 else 1))"
| "fdiv x y = NaN"

text \<open>Python's \<open>x > y\<close> on floats: every comparison with \<open>NaN\<close> is false.\<close>

fun fgt :: "fnum \<Rightarrow> fnum \<Rightarrow> bool" where
  "fgt NaN y = False"
| "fgt x NaN = False"
| "fgt (Fin a) (Fin b) = (b < a)"
| "fgt PosInf PosInf = False"
| "fgt PosInf y = True"
| "fgt x PosInf = False"
| "fgt NegInf y = False"
| "fgt x NegInf = True"

definition flt :: "fnum \<Rightarrow> fnum \<Rightarrow> bool" where
  "flt x y = fgt y x"

fun fabs :: "fnum \<Rightarrow> fnum" where
  "fabs (Fin a) = Fin \<bar>a\<bar>"
| "fabs PosInf = PosInf"
| "fabs NegInf = PosInf"
| "fabs NaN = NaN"

text \<open>
  \<open>numpy.round(x, 1)\<close>, which \<open>Series.round(1)\<close> calls: scale by ten, round to the
  nearest integer with ties going to the even one, scale back.  Infinities and \<open>NaN\<close>
  pass through.
\<close>

definition rint :: "rat \<Rightarrow> int" where
  "rint x =
     (let f = \<lfloor>x\<rfloor>; d = x - of_int f
      in if d < 1 / 2 then f
         else if 1 / 2 < d then f + 1
         else if even f then f else f + 1)"

fun round1 :: "fnum \<Rightarrow> fnum" where
  "round1 (Fin a) = Fin (of_int (rint (a * 10)) / 10)"
| "round1 x = x"

subsection \<open>pandas primitives\<close>

text \<open>
  \<open>df.groupby(key)\<close> with the default \<open>sort=True\<close>: one group per distinct key, the
  groups in ascending key order, each holding its rows in their original order.
\<close>

definition groupby :: "('r \<Rightarrow> 'k::linorder) \<Rightarrow> 'r list \<Rightarrow> ('k \<times> 'r list) list" where
  "groupby key rs =
     map (\<lambda>k. (k, filter (\<lambda>r. key r = k) rs)) (sort (remdups (map key rs)))"

text \<open>\<open>.groupby(key)["sales"].sum()\<close>, \<open>.mean()\<close> and \<open>.count()\<close>: a series indexed by key.\<close>

definition groupby_sum :: "(row \<Rightarrow> 'k::linorder) \<Rightarrow> row list \<Rightarrow> ('k \<times> fnum) list" where
  "groupby_sum key rs =
     map (\<lambda>(k, g). (k, Fin (sum_list (map sales g)))) (groupby key rs)"

definition groupby_mean :: "(row \<Rightarrow> 'k::linorder) \<Rightarrow> row list \<Rightarrow> ('k \<times> fnum) list" where
  "groupby_mean key rs =
     map (\<lambda>(k, g). (k, Fin (sum_list (map sales g) / of_nat (length g)))) (groupby key rs)"

definition groupby_count :: "(row \<Rightarrow> 'k::linorder) \<Rightarrow> row list \<Rightarrow> ('k \<times> nat) list" where
  "groupby_count key rs = map (\<lambda>(k, g). (k, length g)) (groupby key rs)"

text \<open>
  \<open>Series.sum()\<close> and \<open>Series.mean()\<close> with the default \<open>skipna=True\<close>: \<open>NaN\<close> entries
  are left out; the mean of no entries is \<open>NaN\<close>.
\<close>

definition notna :: "fnum list \<Rightarrow> fnum list" where
  "notna xs = filter (\<lambda>x. x \<noteq> NaN) xs"

definition series_sum :: "fnum list \<Rightarrow> fnum" where
  "series_sum xs = foldl fadd (Fin 0) (notna xs)"

definition series_mean :: "fnum list \<Rightarrow> fnum" where
  "series_mean xs =
     (if notna xs = [] then NaN
      else fdiv (series_sum xs) (Fin (of_nat (length (notna xs)))))"

text \<open>\<open>Series.shift(1)\<close>, \<open>Series.pct_change()\<close> (\<open>data / data.shift(1) - 1\<close>) and
  \<open>Series.tail(n)\<close>.\<close>

definition shift1 :: "fnum list \<Rightarrow> fnum list" where
  "shift1 xs = (if xs = [] then [] else NaN # butlast xs)"

definition pct_change :: "fnum list \<Rightarrow> fnum list" where
  "pct_change xs = map (\<lambda>(x, p). fsub (fdiv x p) (Fin 1)) (zip xs (shift1 xs))"

definition tail :: "nat \<Rightarrow> 'a list \<Rightarrow> 'a list" where
  "tail n xs = drop (length xs - n) xs"

text \<open>\<open>Series.reindex(keys)\<close>: the entries in the order of \<open>keys\<close>, \<open>NaN\<close> for a key
  the series does not have.\<close>

definition reindex :: "'k list \<Rightarrow> ('k \<times> fnum) list \<Rightarrow> ('k \<times> fnum) list" where
  "reindex keys s =
     map (\<lambda>k. (k, case map_of s k of Some v \<Rightarrow> v | None \<Rightarrow> NaN)) keys"

section \<open>Executive summary: totals and the month-over-month trend\<close>

text \<open>
  \<open>plot_sales_time_series\<close> and \<open>display_executive_summary\<close>:
  \<^verbatim>\<open>daily_sales = filtered_data.groupby("date")["sales"].sum().reset_index()\<close>,
  \<^verbatim>\<open>total_sales = data["sales"].sum()\<close>.
\<close>

definition daily_sales :: "row list \<Rightarrow> (date \<times> fnum) list" where
  "daily_sales rs = groupby_sum date rs"


text \<open>
  \<^verbatim>\<open>monthly = data.groupby(data["date"].dt.to_period("M"))["sales"].sum().reset_index()\<close>
  \<^verbatim>\<open>monthly["pct_change"] = monthly["sales"].pct_change() * 100\<close>
  \<^verbatim>\<open>recent_trend = monthly["pct_change"].tail(3).mean()\<close>
  A period is the pair (year, month); the periods come out in chronological order.  (The
  code then turns each period into the timestamp of its first day, for the chart; this
  keeps the order and the totals.)
\<close>

definition to_period_M :: "row \<Rightarrow> int \<times> nat" where
  "to_period_M r = (case date r of (y, m, d) \<Rightarrow> (y, m))"

definition monthly_sales :: "row list \<Rightarrow> ((int \<times> nat) \<times> fnum) list" where
  "monthly_sales rs = groupby_sum to_period_M rs"

definition monthly_pct_change :: "row list \<Rightarrow> fnum list" where
  "monthly_pct_change rs =
     map (\<lambda>x. fmul x (Fin 100)) (pct_change (map snd (monthly_sales rs)))"

text \<open>The frame \<open>monthly\<close>: period, total, percent change.\<close>

definition monthly :: "row list \<Rightarrow> ((int \<times> nat) \<times> fnum \<times> fnum) list" where
  "monthly rs =
     map (\<lambda>((p, v), c). (p, v, c)) (zip (monthly_sales rs) (monthly_pct_change rs))"

definition recent_trend :: "row list \<Rightarrow> fnum" where
  "recent_trend rs = series_mean (tail 3 (monthly_pct_change rs))"

text \<open>The three branches of the \<open>if recent_trend > 5 / elif recent_trend > 0 / else\<close>.\<close>

datatype band = Positive | Stable | Declining

definition trend_band :: "fnum \<Rightarrow> band" where
  "trend_band t =
     (if fgt t (Fin 5) then Positive
      else if fgt t (Fin 0) then Stable
      else Declining)"



text \<open>
  The specification's \<open>recent_trend_average\<close>, written from its words for comparison
  with \<open>recent_trend\<close>: the mean of the last three percent changes that are not null.
\<close>

definition recent_trend_average_spec :: "fnum list \<Rightarrow> fnum" where
  "recent_trend_average_spec c = series_mean (tail 3 (notna c))"

section \<open>Day-of-week pattern\<close>

text \<open>
  \<open>Series.dt.day_name()\<close> is calendar extraction: pandas computes the weekday of a
  timestamp from its year, month and day (Sakamoto's method, Monday is 0; the years of a
  timestamp are positive, so C's truncating division and \<open>div\<close> agree) and names it from
  its list of day names.
\<close>

definition sakamoto_arr :: "int list" where
  "sakamoto_arr = [0, 3, 2, 5, 0, 3, 5, 1, 4, 6, 2, 4]"

definition dayofweek :: "date \<Rightarrow> nat" where
  "dayofweek dt =
     (case dt of (y, m, d) \<Rightarrow>
        let y' = (if m < 3 then y - 1 else y);
            day = (y' + y' div 4 - y' div 100 + y' div 400 + sakamoto_arr ! (m - 1) + int d) mod 7
        in nat ((day + 6) mod 7))"

definition DAYS_FULL :: "string list" where
  "DAYS_FULL =
     [''Monday'', ''Tuesday'', ''Wednesday'', ''Thursday'', ''Friday'', ''Saturday'', ''Sunday'']"

definition day_name :: "date \<Rightarrow> string" where
  "day_name dt = DAYS_FULL ! dayofweek dt"

text \<open>
  \<^verbatim>\<open>data_copy["day_of_week"] = data_copy["date"].dt.day_name()\<close>: the column is added
  (or overwritten, if the frame had one) on the frame it is applied to.
\<close>

definition set_day_of_week :: "frame \<Rightarrow> frame" where
  "set_day_of_week df =
     \<lparr>columns = (if ''day_of_week'' \<in> set (columns df) then columns df
                 else columns df @ [''day_of_week'']),
      rows = map (\<lambda>r. r\<lparr>day_of_week := day_name (date r)\<rparr>) (rows df)\<rparr>"

definition day_order :: "string list" where
  "day_order =
     [''Monday'', ''Tuesday'', ''Wednesday'', ''Thursday'', ''Friday'', ''Saturday'', ''Sunday'']"

text \<open>
  \<open>display_timing_insights\<close>:
  \<^verbatim>\<open>dow_sales = data_copy.groupby("day_of_week")["sales"].mean().reindex(day_order)\<close>;
  \<open>plot_day_of_week_pattern\<close> computes the same series as \<open>daily_avg\<close> (followed by
  \<open>reset_index()\<close>, which turns the index into a column and keeps the order).
\<close>

definition dow_sales :: "frame \<Rightarrow> (string \<times> fnum) list" where
  "dow_sales data_copy = reindex day_order (groupby_mean day_of_week (rows data_copy))"

definition daily_avg :: "frame \<Rightarrow> (string \<times> fnum) list" where
  "daily_avg data = reindex day_order (groupby_mean day_of_week (rows data))"

text \<open>The mean of \<open>sales\<close> over the rows whose date falls on a given weekday, null when
  there is no such row: what the specification asks of a day-of-week aggregation.\<close>

definition weekday_mean :: "row list \<Rightarrow> string \<Rightarrow> fnum" where
  "weekday_mean rs d =
     (let g = filter (\<lambda>r. day_name (date r) = d) rs
      in if g = [] then NaN else Fin (sum_list (map sales g) / of_nat (length g)))"

section \<open>Growth opportunities: store by category gaps\<close>

text \<open>
  A two-dimensional frame of floats: row labels, column labels, and one list of cells per
  row label.
\<close>

record table =
  t_index :: "string list"
  t_columns :: "string list"
  t_values :: "fnum list list"

text \<open>
  \<^verbatim>\<open>store_cat = data.groupby(["store_name", "category"])["sales"].mean().reset_index()\<close>
  \<^verbatim>\<open>pivot = store_cat.pivot(index="store_name", columns="category", values="sales")\<close>
  The pivot has the sorted store names as index and the sorted categories as columns; a
  combination without rows is \<open>NaN\<close>.
\<close>

definition store_cat :: "row list \<Rightarrow> ((string \<times> string) \<times> fnum) list" where
  "store_cat rs = groupby_mean (\<lambda>r. (store_name r, category r)) rs"

definition pivot :: "row list \<Rightarrow> table" where
  "pivot rs =
     (let sc = store_cat rs;
          idx = sort (remdups (map (fst \<circ> fst) sc));
          cols = sort (remdups (map (snd \<circ> fst) sc))
      in \<lparr>t_index = idx, t_columns = cols,
          t_values =
            map (\<lambda>s. map (\<lambda>c. case map_of sc (s, c) of Some v \<Rightarrow> v | None \<Rightarrow> NaN) cols) idx\<rparr>)"

text \<open>\<open>pivot[col]\<close> for the \<open>j\<close>-th column, and \<^verbatim>\<open>category_avg = pivot.mean()\<close>: the mean of
  every column, \<open>NaN\<close> cells skipped.\<close>

definition table_col :: "table \<Rightarrow> nat \<Rightarrow> fnum list" where
  "table_col t j = map (\<lambda>r. r ! j) (t_values t)"

definition category_avg :: "row list \<Rightarrow> fnum list" where
  "category_avg rs =
     map (\<lambda>j. series_mean (table_col (pivot rs) j)) [0..<length (t_columns (pivot rs))]"

text \<open>
  \<^verbatim>\<open>gaps = pivot.copy()\<close>
  \<^verbatim>\<open>for col in gaps.columns:\<close>
  \<^verbatim>\<open>    gaps[col] = ((pivot[col] - category_avg[col]) / category_avg[col] * 100).round(1)\<close>
\<close>

definition deviation :: "fnum \<Rightarrow> fnum \<Rightarrow> fnum" where
  "deviation v m = round1 (fmul (fdiv (fsub v m) m) (Fin 100))"

definition gaps :: "row list \<Rightarrow> table" where
  "gaps rs =
     (let p = pivot rs; avg = category_avg rs
      in p\<lparr>t_values := map (\<lambda>r. map (\<lambda>(v, m). deviation v m) (zip r avg)) (t_values p)\<rparr>)"

text \<open>
  The loop that collects the cells below \<open>-10\<close> and \<open>opportunities.sort(key=lambda x: x[2])\<close>:
  Python's sort is stable and compares keys with \<open><\<close>.
\<close>

fun insert_by :: "('a \<Rightarrow> fnum) \<Rightarrow> 'a \<Rightarrow> 'a list \<Rightarrow> 'a list" where
  "insert_by k x [] = [x]"
| "insert_by k x (y # ys) = (if flt (k y) (k x) then y # insert_by k x ys else x # y # ys)"

definition sort_by :: "('a \<Rightarrow> fnum) \<Rightarrow> 'a list \<Rightarrow> 'a list" where
  "sort_by k xs = foldr (insert_by k) xs []"

definition opportunities :: "row list \<Rightarrow> (string \<times> string \<times> fnum) list" where
  "opportunities rs =
     (let g = gaps rs
      in sort_by (\<lambda>x. snd (snd x))
           (concat (map (\<lambda>(store, r).
              concat (map (\<lambda>(cat, val). if flt val (Fin (- 10)) then [(store, cat, val)] else [])
                (zip (t_columns g) r)))
              (zip (t_index g) (t_values g)))))"

text \<open>
  The specification's words for the gap table: a combination has data when some row has
  that store and category; its cell is the mean of \<open>sales\<close> over those rows; the mean of a
  category is taken over the stores that have data for it.
\<close>

definition has_data :: "row list \<Rightarrow> string \<Rightarrow> string \<Rightarrow> bool" where
  "has_data rs s c = (\<exists>r \<in> set rs. store_name r = s \<and> category r = c)"

definition cell_mean :: "row list \<Rightarrow> string \<Rightarrow> string \<Rightarrow> rat" where
  "cell_mean rs s c =
     (let g = filter (\<lambda>r. store_name r = s \<and> category r = c) rs
      in sum_list (map sales g) / of_nat (length g))"

definition column_mean :: "row list \<Rightarrow> string \<Rightarrow> rat" where
  "column_mean rs c =
     (let ss = filter (\<lambda>s. has_data rs s c) (sort (remdups (map store_name rs)))
      in sum_list (map (\<lambda>s. cell_mean rs s c) ss) / of_nat (length ss))"

text \<open>The cell of the pivot for a store and a category, in those words.\<close>

definition pivot_cell :: "row list \<Rightarrow> string \<Rightarrow> string \<Rightarrow> fnum" where
  "pivot_cell rs s c = (if has_data rs s c then Fin (cell_mean rs s c) else NaN)"

section \<open>Growth opportunities: year-over-year item growth\<close>

text \<open>
  \<^verbatim>\<open>yoy = data.groupby([data["date"].dt.year, item_col])["sales"].sum().unstack(level=0)\<close>
  One line per item (sorted), one column per year (sorted), \<open>NaN\<close> where an item has no
  row in a year.
\<close>

definition year :: "row \<Rightarrow> int" where
  "year r = fst (date r)"

definition unstack_year ::
  "(row \<Rightarrow> string) \<Rightarrow> row list \<Rightarrow> int list \<times> (string \<times> fnum list) list" where
  "unstack_year item rs =
     (let g = groupby_sum (\<lambda>r. (year r, item r)) rs;
          years = sort (remdups (map (fst \<circ> fst) g));
          items = sort (remdups (map (snd \<circ> fst) g))
      in (years,
          map (\<lambda>i. (i, map (\<lambda>y. case map_of g (y, i) of Some v \<Rightarrow> v | None \<Rightarrow> NaN) years))
            items))"

text \<open>
  \<^verbatim>\<open>year1, year2 = sorted(yoy.columns)[:2]\<close>
  \<^verbatim>\<open>yoy["growth_pct"] = ((yoy[year2] - yoy[year1]) / yoy[year1] * 100).round(1)\<close>
  The year columns are sorted already, so the two years are the first two cells of a line.
\<close>

definition growth_pct :: "fnum list \<Rightarrow> fnum" where
  "growth_pct cells = round1 (fmul (fdiv (fsub (cells ! 1) (cells ! 0)) (cells ! 0)) (Fin 100))"

text \<open>
  \<^verbatim>\<open>yoy = yoy.sort_values("growth_pct", ascending=False).dropna()\<close>
  \<open>sort_values\<close> puts the lines with a \<open>NaN\<close> key last; \<open>dropna()\<close> without a \<open>subset\<close>
  drops every line that has a \<open>NaN\<close> in any column, the year columns included.  (pandas
  sorts with quicksort, which leaves the order of equal keys open; the model keeps equal
  keys in their original order.)
\<close>

fun insert_desc :: "('a \<Rightarrow> fnum) \<Rightarrow> 'a \<Rightarrow> 'a list \<Rightarrow> 'a list" where
  "insert_desc k x [] = [x]"
| "insert_desc k x (y # ys) = (if fgt (k y) (k x) then y # insert_desc k x ys else x # y # ys)"

definition sort_values_desc :: "('a \<Rightarrow> fnum) \<Rightarrow> 'a list \<Rightarrow> 'a list" where
  "sort_values_desc k xs =
     foldr (insert_desc k) (filter (\<lambda>x. k x \<noteq> NaN) xs) [] @ filter (\<lambda>x. k x = NaN) xs"

definition dropna :: "(string \<times> fnum list \<times> fnum) list \<Rightarrow> (string \<times> fnum list \<times> fnum) list" where
  "dropna ls = filter (\<lambda>(i, cells, g). NaN \<notin> set cells \<and> g \<noteq> NaN) ls"

definition yoy :: "(row \<Rightarrow> string) \<Rightarrow> row list \<Rightarrow> (string \<times> fnum list \<times> fnum) list" where
  "yoy item rs =
     dropna (sort_values_desc (\<lambda>l. snd (snd l))
       (map (\<lambda>(i, cells). (i, cells, growth_pct cells)) (snd (unstack_year item rs))))"

text \<open>The total of an item in a year, and whether the item has a row in that year.\<close>

definition sold_in :: "(row \<Rightarrow> string) \<Rightarrow> row list \<Rightarrow> string \<Rightarrow> int \<Rightarrow> bool" where
  "sold_in item rs i y = (\<exists>r \<in> set rs. item r = i \<and> year r = y)"

definition year_total :: "(row \<Rightarrow> string) \<Rightarrow> row list \<Rightarrow> string \<Rightarrow> int \<Rightarrow> rat" where
  "year_total item rs i y = sum_list (map sales (filter (\<lambda>r. year r = y \<and> item r = i) rs))"


section \<open>Rendering: frames on a heap, Streamlit calls, exceptions\<close>

text \<open>
  A pandas frame is a mutable object that the caller and the callee share.  The heap is
  the list of the frames allocated so far, and a frame is named by its position; the
  argument \<open>data\<close> of every function below is such an address.  \<open>data.copy()\<close>
  allocates a new frame with the same content, and an assignment to a column updates the
  frame at the address it is applied to.  Frames that pandas builds fresh
  (\<open>groupby(...).sum()\<close>, \<open>pivot\<close>, \<open>unstack\<close>, \<open>pivot.copy()\<close>) never share
  storage with \<open>data\<close>; they are the values of the definitions above.

  An event records one Streamlit call with the fixed leading text of its message (for
  \<open>st.pyplot\<close>, the title of the figure).  The numbers and names interpolated into a
  message are the values of the definitions above and are not repeated in the event.

  An exception ends the function: the result carries the exception and the state at the
  moment it is raised.  Every frame is taken to have the required columns \<open>date\<close> and
  \<open>sales\<close>.
\<close>

datatype exn = KeyError string | IndexError | ValueError

datatype event =
    St_title string
  | St_header string
  | St_subheader string
  | St_divider
  | St_markdown string
  | St_success string
  | St_info string
  | St_warning string
  | St_error string
  | St_metric string
  | St_pyplot string

record state =
  heap :: "frame list"
  out :: "event list"

definition st_calls :: "event list \<Rightarrow> state \<Rightarrow> state" where
  "st_calls es s = s\<lparr>out := out s @ es\<rparr>"

definition df_copy :: "nat \<Rightarrow> state \<Rightarrow> nat \<times> state" where
  "df_copy a s = (length (heap s), s\<lparr>heap := heap s @ [heap s ! a]\<rparr>)"

definition setitem_day_of_week :: "nat \<Rightarrow> state \<Rightarrow> state" where
  "setitem_day_of_week a s = s\<lparr>heap := (heap s)[a := set_day_of_week (heap s ! a)]\<rparr>"

text \<open>\<open>data.empty\<close>: no rows or no columns.\<close>

definition empty_frame :: "frame \<Rightarrow> bool" where
  "empty_frame df = (rows df = [] \<or> columns df = [])"

text \<open>The string column of a given name.\<close>

definition str_col :: "string \<Rightarrow> row \<Rightarrow> string" where
  "str_col c =
     (if c = ''store_id'' then store_id
      else if c = ''store_name'' then store_name
      else if c = ''item_id'' then item_id
      else if c = ''item_name'' then item_name
      else if c = ''category'' then category
      else day_of_week)"

text \<open>\<^verbatim>\<open>store_col = "store_name" if "store_name" in data.columns else "store_id"\<close>, and the
  same for items.\<close>

definition store_col :: "frame \<Rightarrow> string" where
  "store_col df = (if ''store_name'' \<in> set (columns df) then ''store_name'' else ''store_id'')"

definition item_col :: "frame \<Rightarrow> string" where
  "item_col df = (if ''item_name'' \<in> set (columns df) then ''item_name'' else ''item_id'')"

text \<open>
  \<open>Series.idxmax()\<close> and \<open>idxmin()\<close>: the label of the first largest (smallest) entry
  that is not \<open>NaN\<close>.  On a series without such an entry the call raises \<open>ValueError\<close>
  (every pandas version does on an empty series; on a non-empty series of \<open>NaN\<close> only,
  pandas before 3.0 warns and returns \<open>NaN\<close> instead).
\<close>

fun argbest :: "(fnum \<Rightarrow> fnum \<Rightarrow> bool) \<Rightarrow> ('k \<times> fnum) list \<Rightarrow> ('k \<times> fnum) option" where
  "argbest better [] = None"
| "argbest better ((k, v) # xs) =
     (if v = NaN then argbest better xs
      else case argbest better xs of
             None \<Rightarrow> Some (k, v)
           | Some (k', v') \<Rightarrow> if better v' v then Some (k', v') else Some (k, v))"

definition idxmax :: "('k \<times> fnum) list \<Rightarrow> exn + 'k" where
  "idxmax s = (case argbest fgt s of None \<Rightarrow> Inl ValueError | Some (k, v) \<Rightarrow> Inr k)"

definition idxmin :: "('k \<times> fnum) list \<Rightarrow> exn + 'k" where
  "idxmin s = (case argbest flt s of None \<Rightarrow> Inl ValueError | Some (k, v) \<Rightarrow> Inr k)"

subsection \<open>\<open>insights.py\<close>\<close>

text \<open>The branch of \<open>display_executive_summary\<close> on \<open>recent_trend\<close>.\<close>

definition trend_message :: "fnum \<Rightarrow> event" where
  "trend_message t =
     (if fgt t (Fin 5) then St_success ''Positive trend''
      else if fgt t (Fin 0) then St_info ''Stable growth''
      else St_warning ''Declining trend'')"

definition display_executive_summary :: "nat \<Rightarrow> state \<Rightarrow> exn option \<times> state" where
  "display_executive_summary data s0 =
     (let s1 = st_calls [St_header ''Executive Summary''] s0;
          df = heap s1 ! data;
          s2 = st_calls [St_metric ''Total Sales (all time)'', St_metric ''Avg Daily Revenue'',
                   St_metric ''Active Stores'', St_metric ''Product Range''] s1;
          s3 = st_calls [trend_message (recent_trend (rows df))] s2
      in (None, st_calls [St_pyplot ''Monthly Revenue Trend''] s3))"

text \<open>
  \<open>ax.pie(x)\<close> raises \<open>ValueError\<close> when a wedge size is negative, and also when the
  sizes are all zero: they are divided by their sum, and a wedge of \<open>NaN\<close> degrees cannot
  be drawn.  No sizes at all draw an empty pie.
\<close>

definition pie_raises :: "fnum list \<Rightarrow> bool" where
  "pie_raises x =
     (list_ex (\<lambda>v. flt v (Fin 0)) x \<or> (x \<noteq> [] \<and> list_all (\<lambda>v. v = Fin 0) x))"

definition display_performer_analysis :: "nat \<Rightarrow> state \<Rightarrow> exn option \<times> state" where
  "display_performer_analysis data s0 =
     (let s1 = st_calls [St_header ''Performance Analysis'',
                   St_subheader ''Store Performance Ranking''] s0;
          df = heap s1 ! data
      in if store_col df \<notin> set (columns df) then (Some (KeyError (store_col df)), s1)
         else if groupby_sum (str_col (store_col df)) (rows df) = [] then (Some IndexError, s1)
         else
           let s2 = st_calls [St_success ''Top store'', St_error ''Lowest store'',
                        St_info ''The gap between top and bottom stores'',
                        St_pyplot ''Store Revenue Ranking'',
                        St_subheader ''Product Performance Ranking''] s1
           in if item_col df \<notin> set (columns df) then (Some (KeyError (item_col df)), s2)
              else
                let s3 = st_calls [St_success ''Best sellers'', St_error ''Lowest sellers'',
                             St_pyplot ''Top 10 Products by Revenue''] s2
                in if ''category'' \<in> set (columns df)
                   then
                     let s4 = st_calls [St_subheader ''Category Performance''] s3
                     in if pie_raises (map snd (groupby_sum category (rows df)))
                        then (Some ValueError, s4)
                        else (None, st_calls [St_pyplot ''Revenue Share by Category'',
                                              St_markdown ''leads with''] s4)
                   else (None, s3))"

text \<open>
  \<^verbatim>\<open>weekend_avg = dow_sales[["Saturday", "Sunday"]].mean()\<close>
  \<^verbatim>\<open>weekday_avg = dow_sales[["Monday", "Tuesday", "Wednesday", "Thursday", "Friday"]].mean()\<close>
  \<^verbatim>\<open>weekend_lift = (weekend_avg - weekday_avg) / weekday_avg * 100\<close>
\<close>

definition weekend_lift :: "(string \<times> fnum) list \<Rightarrow> fnum" where
  "weekend_lift dow =
     (let weekend_avg = series_mean (map snd (reindex [''Saturday'', ''Sunday''] dow));
          weekday_avg = series_mean (map snd
            (reindex [''Monday'', ''Tuesday'', ''Wednesday'', ''Thursday'', ''Friday''] dow))
      in fmul (fdiv (fsub weekend_avg weekday_avg) weekday_avg) (Fin 100))"

text \<open>\<^verbatim>\<open>monthly_avg = data.groupby(data["date"].dt.month)["sales"].mean()\<close>\<close>

definition month :: "row \<Rightarrow> nat" where
  "month r = fst (snd (date r))"

definition monthly_avg :: "row list \<Rightarrow> (nat \<times> fnum) list" where
  "monthly_avg rs = groupby_mean month rs"

definition display_timing_insights :: "nat \<Rightarrow> state \<Rightarrow> exn option \<times> state" where
  "display_timing_insights data s0 =
     (let s1 = st_calls [St_header ''Timing & Seasonal Insights'',
                   St_subheader ''Day-of-Week Pattern''] s0;
          (data_copy, s2) = df_copy data s1;
          s3 = setitem_day_of_week data_copy s2;
          dow = dow_sales (heap s3 ! data_copy)
      in case idxmax dow of
           Inl e \<Rightarrow> (Some e, s3)
         | Inr best_day \<Rightarrow>
            (case idxmin dow of
               Inl e \<Rightarrow> (Some e, s3)
             | Inr worst_day \<Rightarrow>
                let s4 = st_calls [St_pyplot ''Average Sales by Day of Week'',
                             (if fgt (weekend_lift dow) (Fin 0) then St_info ''Weekends drive''
                              else St_info ''Weekdays outperform weekends''),
                             St_subheader ''Monthly Seasonality''] s3;
                    mavg = monthly_avg (rows (heap s4 ! data))
                in case idxmax mavg of
                     Inl e \<Rightarrow> (Some e, s4)
                   | Inr peak \<Rightarrow>
                      (case idxmin mavg of
                         Inl e \<Rightarrow> (Some e, s4)
                       | Inr low \<Rightarrow>
                          (None, st_calls [St_pyplot ''Monthly Sales Seasonality'',
                                     St_info ''Peak season''] s4))))"

text \<open>
  \<open>display_growth_opportunities\<close>.  \<open>sns.heatmap\<close> takes the minimum of the table and
  raises \<open>ValueError\<close> on a table without cells.  One line is written for each of the first
  five opportunities, for each of the first five lines of \<open>yoy\<close>, and for each of the last
  five lines of \<open>yoy\<close> with negative growth.
\<close>

definition yoy_events :: "(string \<times> fnum list \<times> fnum) list \<Rightarrow> event list" where
  "yoy_events y =
     (let top_growth = take 5 y;
          declining = tail 5 (filter (\<lambda>l. flt (snd (snd l)) (Fin 0)) y)
      in [St_markdown ''Fastest Growing Products'']
         @ map (\<lambda>l. St_markdown ''growth'') top_growth
         @ [St_markdown ''Invest more in these products'', St_markdown ''Declining Products'']
         @ (if declining \<noteq> []
            then map (\<lambda>l. St_markdown ''declining'') declining @ [St_markdown ''Review pricing'']
            else [St_success ''No declining products found!'']))"

definition display_growth_opportunities :: "nat \<Rightarrow> state \<Rightarrow> exn option \<times> state" where
  "display_growth_opportunities data s0 =
     (let s1 = st_calls [St_header ''Growth Opportunities''] s0;
          df = heap s1 ! data;
          rs = rows df;
          cross = (''category'' \<in> set (columns df) \<and> ''store_name'' \<in> set (columns df));
          s2 = (if cross
                then st_calls [St_subheader ''Underperforming Store-Category Combinations''] s1
                else s1)
      in if cross \<and> concat (t_values (gaps rs)) = [] then (Some ValueError, s2)
         else
           let s3 = (if cross
                     then st_calls ([St_pyplot ''Store Performance vs Category Average (%)'',
                               St_markdown ''How to read this chart'']
                              @ (if opportunities rs \<noteq> []
                                 then St_subheader ''Top Improvement Targets''
                                      # map (\<lambda>x. St_markdown ''below average'')
                                          (take 5 (opportunities rs))
                                 else [])) s2
                     else s2)
           in if 1 < length (remdups (map year rs))
              then
                let s4 = st_calls [St_subheader ''Year-over-Year Item Growth''] s3
                in if item_col df \<notin> set (columns df) then (Some (KeyError (item_col df)), s4)
                   else if 2 \<le> length (fst (unstack_year (str_col (item_col df)) rs))
                   then (None, st_calls (yoy_events (yoy (str_col (item_col df)) rs)) s4)
                   else (None, s4)
              else (None, s3))"

text \<open>
  \<open>display_recommendations\<close>: five recommendations, and a sixth when the frame has a
  \<open>category\<close> column; the loop writes each one with \<open>st.markdown\<close> and follows it
  with \<open>st.divider()\<close>.  The day-of-week series is not reindexed here.
\<close>

definition display_recommendations :: "nat \<Rightarrow> state \<Rightarrow> exn option \<times> state" where
  "display_recommendations data s0 =
     (let s1 = st_calls [St_header ''Actionable Recommendations'',
                   St_markdown ''Based on the analysis above''] s0;
          df = heap s1 ! data
      in if store_col df \<notin> set (columns df) then (Some (KeyError (store_col df)), s1)
         else
           let store_sales = groupby_sum (str_col (store_col df)) (rows df)
           in case idxmax store_sales of
                Inl e \<Rightarrow> (Some e, s1)
              | Inr best_store \<Rightarrow>
                 (case idxmin store_sales of
                    Inl e \<Rightarrow> (Some e, s1)
                  | Inr worst_store \<Rightarrow>
                     let (data_copy, s2) = df_copy data s1;
                         s3 = setitem_day_of_week data_copy s2;
                         dow = groupby_mean day_of_week (rows (heap s3 ! data_copy))
                     in case idxmin dow of
                          Inl e \<Rightarrow> (Some e, s3)
                        | Inr worst_day \<Rightarrow>
                           let mavg = monthly_avg (rows (heap s3 ! data))
                           in case idxmax mavg of
                                Inl e \<Rightarrow> (Some e, s3)
                              | Inr peak \<Rightarrow>
                                 (case idxmin mavg of
                                    Inl e \<Rightarrow> (Some e, s3)
                                  | Inr low \<Rightarrow>
                                     if item_col (heap s3 ! data) \<notin> set (columns (heap s3 ! data))
                                     then (Some (KeyError (item_col (heap s3 ! data))), s3)
                                     else
                                       (None,
                                        st_calls (concat (map (\<lambda>title. [St_markdown title, St_divider])
                                          ([''Replicate Top Store Practices'',
                                            ''Optimize Weekly Promotions'',
                                            ''Seasonal Inventory Planning'',
                                            ''Product Bundling Strategy'',
                                            ''Focus on High-Value Products'']
                                           @ (if ''category'' \<in> set (columns (heap s3 ! data))
                                              then [''Cross-Category Promotion'']
                                              else [])))) s3))))"

text \<open>Running the next section unless an exception is on its way up.\<close>

definition and_then ::
  "exn option \<times> state \<Rightarrow> (state \<Rightarrow> exn option \<times> state) \<Rightarrow> exn option \<times> state" where
  "and_then r f = (case r of (None, s) \<Rightarrow> f s | (Some e, s) \<Rightarrow> (Some e, s))"

definition business_insights_view :: "nat \<Rightarrow> state \<Rightarrow> exn option \<times> state" where
  "business_insights_view data s0 =
     (let s1 = st_calls [St_title ''Business Insights & Recommendations''] s0
      in if empty_frame (heap s1 ! data)
         then (None, st_calls [St_warning ''No sales data available.''] s1)
         else
           and_then (and_then (and_then (and_then (and_then
             (None, st_calls [St_markdown ''This page analyzes your historical sales data''] s1)
             (display_executive_summary data))
             (\<lambda>s. display_performer_analysis data (st_calls [St_divider] s)))
             (\<lambda>s. display_timing_insights data (st_calls [St_divider] s)))
             (\<lambda>s. display_growth_opportunities data (st_calls [St_divider] s)))
             (\<lambda>s. display_recommendations data (st_calls [St_divider] s)))"

subsection \<open>\<open>data_viz.py\<close>\<close>

text \<open>
  A plotting function returns its figure: the title and the series that is drawn, as
  labels and heights.  Colours, sizes and axis labels are left out.
\<close>

datatype label = Day date | Name string

record figure =
  fig_title :: string
  fig_x :: "label list"
  fig_y :: "fnum list"

definition plot_sales_time_series ::
  "nat \<Rightarrow> string \<Rightarrow> string \<Rightarrow> state \<Rightarrow> (exn + figure) \<times> state" where
  "plot_sales_time_series filtered_data selected_store selected_store_name s =
     (let ds = daily_sales (rows (heap s ! filtered_data));
          store_label = (if selected_store_name \<noteq> ''All Stores'' then selected_store_name
                         else selected_store);
          title = (if store_label \<noteq> ''All Stores'' then ''Daily Sales - '' @ store_label
                   else ''Daily Sales - All Stores'')
      in (Inr \<lparr>fig_title = title, fig_x = map (Day \<circ> fst) ds, fig_y = map snd ds\<rparr>, s))"

definition plot_day_of_week_pattern :: "nat \<Rightarrow> state \<Rightarrow> (exn + figure) \<times> state" where
  "plot_day_of_week_pattern filtered_data s0 =
     (let (data, s1) = df_copy filtered_data s0;
          s2 = setitem_day_of_week data s1;
          davg = daily_avg (heap s2 ! data)
      in (Inr \<lparr>fig_title = ''Average Sales by Day of Week'',
               fig_x = map (Name \<circ> fst) davg, fig_y = map snd davg\<rparr>, s2))"

definition plot_sales_distribution :: "nat \<Rightarrow> state \<Rightarrow> (exn + figure) \<times> state" where
  "plot_sales_distribution filtered_data s =
     (Inr \<lparr>fig_title = ''Sales Distribution'', fig_x = [],
           fig_y = map (\<lambda>r. Fin (sales r)) (rows (heap s ! filtered_data))\<rparr>, s)"

definition plot_category_distribution :: "nat \<Rightarrow> state \<Rightarrow> (exn + figure) \<times> state" where
  "plot_category_distribution filtered_data s =
     (let df = heap s ! filtered_data
      in if ''category'' \<notin> set (columns df) then (Inl (KeyError ''category''), s)
         else
           let category_sales = groupby_sum category (rows df)
           in if pie_raises (map snd category_sales) then (Inl ValueError, s)
              else (Inr \<lparr>fig_title = ''Sales by Category'',
                       fig_x = map (Name \<circ> fst) category_sales,
                       fig_y = map snd category_sales\<rparr>, s))"

text \<open>
  \<^verbatim>\<open>filtered_data.groupby(store_identifier)["sales"].sum().sort_values(ascending=True).tail(10)\<close>,
  for a \<open>store_identifier\<close> that names a string column.  \<open>sort_values\<close> is the
  library's sort of a series by value: in what order it leaves equal totals depends on
  its sorting routine, so the function takes it as an argument.
\<close>

definition plot_store_comparison ::
  "((string \<times> fnum) list \<Rightarrow> (string \<times> fnum) list) \<Rightarrow>
   nat \<Rightarrow> string \<Rightarrow> state \<Rightarrow> (exn + figure) \<times> state" where
  "plot_store_comparison sort_values filtered_data store_identifier s =
     (let df = heap s ! filtered_data
      in if store_identifier \<notin> set (columns df) then (Inl (KeyError store_identifier), s)
         else
           let store_sales =
                 tail 10 (sort_values (groupby_sum (str_col store_identifier) (rows df)))
           in (Inr \<lparr>fig_title = ''Top 10 Stores by Sales'',
                    fig_x = map (Name \<circ> fst) store_sales,
                    fig_y = map snd store_sales\<rparr>, s))"

subsection \<open>What a call leaves of the state it started from\<close>

text \<open>The later state has every frame and every event of the earlier one, in place, and
  possibly more of both.\<close>

definition grows :: "state \<Rightarrow> state \<Rightarrow> bool" where
  "grows s s' = ((\<exists>frs. heap s' = heap s @ frs) \<and> (\<exists>es. out s' = out s @ es))"

text \<open>The frame at an address, and every frame of the earlier heap, is the same in the
  later heap.\<close>

definition frame_kept :: "nat \<Rightarrow> state \<Rightarrow> state \<Rightarrow> bool" where
  "frame_kept a s s' =
     (heap s' ! a = heap s ! a \<and> take (length (heap s)) (heap s') = heap s)"

section \<open>Sample datasets\<close>

text \<open>A row of a frame that has every column; \<open>day_of_week\<close> is not yet set.\<close>

definition sale :: "date \<Rightarrow> rat \<Rightarrow> string \<Rightarrow> string \<Rightarrow> string \<Rightarrow> row" where
  "sale d v st it cat =
     \<lparr>date = d, sales = v, store_id = st, store_name = st, item_id = it, item_name = it,
      category = cat, day_of_week = []\<rparr>"

text \<open>Two months with totals 100 and 150, the rows not in date order.\<close>

definition two_months :: "row list" where
  "two_months =
     [sale (2024, 2, 3) 150 ''S1'' ''I1'' ''C1'',
      sale (2024, 1, 5) 40 ''S1'' ''I1'' ''C1'',
      sale (2024, 1, 20) 60 ''S2'' ''I2'' ''C1'']"

text \<open>Five months with totals 10, 30, 0, 0, 0.\<close>

definition flat_months :: "row list" where
  "flat_months =
     [sale (2024, 1, 10) 10 ''S1'' ''I1'' ''C1'',
      sale (2024, 2, 10) 30 ''S1'' ''I1'' ''C1'',
      sale (2024, 3, 10) 0 ''S1'' ''I1'' ''C1'',
      sale (2024, 4, 10) 0 ''S1'' ''I1'' ''C1'',
      sale (2024, 5, 10) 0 ''S1'' ''I1'' ''C1'']"

text \<open>One week of May 2024 (the 6th is a Monday), the rows not in date order, no row on
  a Wednesday.\<close>

definition one_week :: "row list" where
  "one_week =
     [sale (2024, 5, 12) 70 ''S1'' ''I1'' ''C1'',
      sale (2024, 5, 10) 50 ''S1'' ''I1'' ''C1'',
      sale (2024, 5, 6) 10 ''S1'' ''I1'' ''C1'',
      sale (2024, 5, 13) 30 ''S2'' ''I1'' ''C1'',
      sale (2024, 5, 7) 20 ''S1'' ''I2'' ''C1'',
      sale (2024, 5, 11) 60 ''S2'' ''I2'' ''C1'',
      sale (2024, 5, 9) 40 ''S1'' ''I1'' ''C1'']"


text \<open>One store, one category, and nothing sold.\<close>

definition nothing_sold :: "row list" where
  "nothing_sold = [sale (2024, 1, 1) 0 ''A'' ''I1'' ''Food'']"

text \<open>Item A is sold in 2020 and 2021, item B only in 2022.\<close>

definition three_years :: "row list" where
  "three_years =
     [sale (2020, 3, 1) 10 ''S1'' ''A'' ''C1'',
      sale (2021, 3, 1) 20 ''S1'' ''A'' ''C1'',
      sale (2022, 3, 1) 5 ''S1'' ''B'' ''C1'']"


text \<open>A frame with the rows of that week.\<close>

definition week_frame :: frame where
  "week_frame = \<lparr>columns = [''date'', ''sales'', ''store_id''], rows = one_week\<rparr>"

text \<open>States with one frame that has every column.\<close>

definition all_columns :: "string list" where
  "all_columns =
     [''date'', ''sales'', ''store_id'', ''store_name'', ''item_id'', ''item_name'', ''category'']"

definition week_state :: state where
  "week_state = \<lparr>heap = [\<lparr>columns = all_columns, rows = one_week\<rparr>], out = []\<rparr>"

definition no_rows_state :: state where
  "no_rows_state = \<lparr>heap = [\<lparr>columns = all_columns, rows = []\<rparr>], out = []\<rparr>"

section \<open>Properties\<close>

subsection \<open>Arithmetic with the special values\<close>

lemma fdiv_NaN_right [simp]: "fdiv x NaN = NaN"
  by (cases x) simp_all

lemma fadd_NaN_right [simp]: "fadd x NaN = NaN"
  by (cases x) simp_all

lemma fmul_NaN_right [simp]: "fmul x NaN = NaN"
  by (cases x) simp_all

lemma fgt_NaN_right [simp]: "fgt x NaN = False"
  by (cases x) simp_all

subsection \<open>Aggregation is a partition\<close>



lemma groupby_keys: "map fst (groupby key rs) = sort (remdups (map key rs))"
  by (simp add: groupby_def o_def)



lemma groupby_sum_finite: "\<forall>kv \<in> set (groupby_sum key rs). \<exists>a. snd kv = Fin a"
  by (auto simp: groupby_sum_def)

lemma foldl_fadd_Fin: "foldl fadd (Fin a) (map Fin xs) = Fin (a + sum_list xs)"
  by (induction xs arbitrary: a) (simp_all add: add.assoc)






subsection \<open>Month-over-month trend\<close>

lemma length_shift1: "length (shift1 xs) = length xs"
  by (cases xs rule: rev_cases) (simp_all add: shift1_def)

lemma shift1_nth: "i < length xs \<Longrightarrow> shift1 xs ! i = (if i = 0 then NaN else xs ! (i - 1))"
  by (cases i) (auto simp: shift1_def nth_butlast)

lemma length_pct_change: "length (pct_change xs) = length xs"
  by (simp add: pct_change_def length_shift1)

lemma pct_change_nth:
  "i < length xs \<Longrightarrow>
   pct_change xs ! i = (if i = 0 then NaN else fsub (fdiv (xs ! i) (xs ! (i - 1))) (Fin 1))"
  by (simp add: pct_change_def length_shift1 shift1_nth fsub_def)



lemma length_monthly_sales: "length (monthly_sales rs) = length (sort (remdups (map to_period_M rs)))"
  by (simp add: monthly_sales_def groupby_sum_def groupby_def)

lemma monthly_sales_nth:
  "i < length (sort (remdups (map to_period_M rs))) \<Longrightarrow>
   monthly_sales rs ! i =
     (sort (remdups (map to_period_M rs)) ! i,
      Fin (sum_list (map sales (filter (\<lambda>r. to_period_M r = sort (remdups (map to_period_M rs)) ! i) rs))))"
  by (simp add: monthly_sales_def groupby_sum_def groupby_def)

lemma length_monthly_pct_change: "length (monthly_pct_change rs) = length (monthly_sales rs)"
  by (simp add: monthly_pct_change_def length_pct_change)



lemma monthly_pct_change_nth:
  "i < length (monthly_sales rs) \<Longrightarrow>
   monthly_pct_change rs ! i =
     (if i = 0 then NaN
      else fmul (fsub (fdiv (snd (monthly_sales rs ! i)) (snd (monthly_sales rs ! (i - 1)))) (Fin 1))
             (Fin 100))"
  by (simp add: monthly_pct_change_def length_pct_change pct_change_nth)





subsection \<open>Recent trend and its band\<close>

lemma notna_idem: "notna (notna xs) = notna xs"
  by (simp add: notna_def)

lemma series_mean_notna: "series_mean (notna xs) = series_mean xs"
  by (simp add: series_mean_def series_sum_def notna_idem)

lemma notna_id: "NaN \<notin> set xs \<Longrightarrow> notna xs = xs"
  by (induction xs) (auto simp: notna_def)

lemma notna_tail_first_null:
  assumes "NaN \<notin> set c"
  shows "notna (tail 3 (NaN # c)) = tail 3 (notna (NaN # c))"
proof -
  have n: "notna (NaN # c) = c"
    using assms by (simp add: notna_def notna_id [unfolded notna_def])
  show ?thesis
  proof (cases "3 \<le> length c")
    case True
    then have "length (NaN # c) - 3 = Suc (length c - 3)"
      by simp
    then have "tail 3 (NaN # c) = tail 3 c"
      unfolding tail_def by (simp only: drop_Suc_Cons)
    moreover have "NaN \<notin> set (tail 3 c)"
      using assms by (auto simp: tail_def dest: in_set_dropD)
    ultimately show ?thesis
      by (simp add: n notna_id)
  next
    case False
    then have "tail 3 (NaN # c) = NaN # c" and "tail 3 c = c"
      by (simp_all add: tail_def)
    then show ?thesis
      by (simp add: n)
  qed
qed

lemma monthly_pct_change_Fin:
  assumes i: "i < length (monthly_sales rs)" and pos: "0 < i"
    and nz: "\<forall>v \<in> set (map snd (monthly_sales rs)). v \<noteq> Fin 0"
  shows "monthly_pct_change rs ! i \<noteq> NaN"
proof -
  from i pos have j: "i - 1 < length (monthly_sales rs)" by simp
  obtain a where a: "snd (monthly_sales rs ! i) = Fin a"
    using i by (auto simp: length_monthly_sales monthly_sales_nth)
  obtain b where b: "snd (monthly_sales rs ! (i - Suc 0)) = Fin b"
    using j by (auto simp: length_monthly_sales monthly_sales_nth)
  have "snd (monthly_sales rs ! (i - Suc 0)) \<in> set (map snd (monthly_sales rs))"
    using j by (metis One_nat_def length_map nth_map nth_mem)
  with nz b have "b \<noteq> 0" by auto
  then show ?thesis
    using pos by (simp add: monthly_pct_change_nth [OF i] a b fsub_def)
qed

lemma monthly_pct_change_shape:
  assumes nz: "\<forall>v \<in> set (map snd (monthly_sales rs)). v \<noteq> Fin 0"
  shows "monthly_pct_change rs = [] \<or>
         (\<exists>c. monthly_pct_change rs = NaN # c \<and> NaN \<notin> set c)"
proof (cases "monthly_pct_change rs")
  case Nil
  then show ?thesis by simp
next
  case (Cons x c)
  then have len: "0 < length (monthly_sales rs)"
    using length_monthly_pct_change [of rs] by (cases "monthly_sales rs") auto
  have "x = NaN"
    using monthly_pct_change_nth [OF len] Cons by simp
  moreover have "NaN \<notin> set c"
  proof
    assume "NaN \<in> set c"
    then obtain k where k: "k < length c" "c ! k = NaN"
      by (auto simp: in_set_conv_nth)
    then have "Suc k < length (monthly_sales rs)"
      using length_monthly_pct_change [of rs] Cons by simp
    from monthly_pct_change_Fin [OF this _ nz] have "monthly_pct_change rs ! Suc k \<noteq> NaN"
      by simp
    with Cons k show False by simp
  qed
  ultimately show ?thesis using Cons by simp
qed

lemma trend_band_cases:
  "trend_band (Fin x) = (if 5 < x then Positive else if 0 < x then Stable else Declining)"
  "trend_band PosInf = Positive"
  "trend_band NegInf = Declining"
  "trend_band NaN = Declining"
  by (simp_all add: trend_band_def)

text \<open>
  C8 (as amended).  The recent trend is the mean of the values that are not null among
  the last three entries of the percent-change series, null when there is none.  When no
  month has a zero total this is the mean of the last three non-null percent changes.
  The trend falls into exactly one band: positive above 5, stable above 0 and up to 5,
  declining at 0 or below and when it is null.
\<close>

theorem recent_trend_bands:
  "(let c = monthly_pct_change rs;
        w = filter (\<lambda>x. x \<noteq> NaN) (drop (length c - 3) c)
    in recent_trend rs =
         (if w = [] then NaN else fdiv (foldl fadd (Fin 0) w) (Fin (of_nat (length w)))) \<and>
       ((\<forall>v \<in> set (map snd (monthly_sales rs)). v \<noteq> Fin 0) \<longrightarrow>
          recent_trend rs = recent_trend_average_spec c)) \<and>
   (\<forall>x. recent_trend rs = Fin x \<longrightarrow>
      trend_band (recent_trend rs) =
        (if 5 < x then Positive else if 0 < x then Stable else Declining)) \<and>
   (recent_trend rs = PosInf \<longrightarrow> trend_band (recent_trend rs) = Positive) \<and>
   (recent_trend rs = NegInf \<or> recent_trend rs = NaN \<longrightarrow>
      trend_band (recent_trend rs) = Declining)"
proof -
  have unfolded: "recent_trend rs =
      (let c = monthly_pct_change rs;
           w = filter (\<lambda>x. x \<noteq> NaN) (drop (length c - 3) c)
       in if w = [] then NaN else fdiv (foldl fadd (Fin 0) w) (Fin (of_nat (length w))))"
    by (simp add: recent_trend_def series_mean_def series_sum_def tail_def notna_def Let_def)
  have spec: "recent_trend rs = recent_trend_average_spec (monthly_pct_change rs)"
    if nz: "\<forall>v \<in> set (map snd (monthly_sales rs)). v \<noteq> Fin 0"
  proof -
    from monthly_pct_change_shape [OF nz] show ?thesis
    proof
      assume "monthly_pct_change rs = []"
      then show ?thesis
        by (simp add: recent_trend_def recent_trend_average_spec_def notna_def tail_def)
    next
      assume "\<exists>c. monthly_pct_change rs = NaN # c \<and> NaN \<notin> set c"
      then obtain c where c: "monthly_pct_change rs = NaN # c" "NaN \<notin> set c"
        by blast
      have "recent_trend rs = series_mean (notna (tail 3 (NaN # c)))"
        by (simp add: recent_trend_def c series_mean_notna)
      also have "\<dots> = series_mean (tail 3 (notna (NaN # c)))"
        by (simp only: notna_tail_first_null [OF c(2)])
      finally show ?thesis
        by (simp add: recent_trend_average_spec_def c)
    qed
  qed
  have bands: "\<forall>x. recent_trend rs = Fin x \<longrightarrow>
      trend_band (recent_trend rs) =
        (if 5 < x then Positive else if 0 < x then Stable else Declining)"
    by (simp add: trend_band_cases)
  have inf: "recent_trend rs = PosInf \<longrightarrow> trend_band (recent_trend rs) = Positive"
    by (simp add: trend_band_cases)
  have low: "recent_trend rs = NegInf \<or> recent_trend rs = NaN \<longrightarrow>
      trend_band (recent_trend rs) = Declining"
    by (auto simp: trend_band_cases)
  from unfolded spec bands inf low show ?thesis
    unfolding Let_def by blast
qed


theorem recent_trend_bands_witness:
  "list_all (\<lambda>v. v \<noteq> Fin 0) (map snd (monthly_sales two_months)) \<and>
   recent_trend two_months = Fin 50 \<and>
   recent_trend_average_spec (monthly_pct_change two_months) = Fin 50 \<and>
   trend_band (recent_trend two_months) = Positive"
proof -
  have nz: "\<forall>v \<in> set (map snd (monthly_sales two_months)). v \<noteq> Fin 0"
    by code_simp
  have rt: "recent_trend two_months = Fin 50"
    by code_simp
  note t = recent_trend_bands [of two_months, unfolded Let_def]
  from t nz have same:
    "recent_trend two_months = recent_trend_average_spec (monthly_pct_change two_months)"
    by blast
  from t rt have "trend_band (recent_trend two_months) =
      (if (5::rat) < 50 then Positive else if (0::rat) < 50 then Stable else Declining)"
    by blast
  then have band: "trend_band (recent_trend two_months) = Positive"
    by simp
  from nz rt same band show ?thesis
    by (simp add: list_all_iff)
qed

text \<open>
  With monthly totals 10, 30, 0, 0, 0 the percent changes are null, 200, -100, null,
  null: the code averages the last three entries (-100), the last three non-null changes
  average to 50, and the bands differ.
\<close>

theorem recent_trend_counterexample:
  "recent_trend flat_months = Fin (- 100) \<and>
   recent_trend_average_spec (monthly_pct_change flat_months) = Fin 50 \<and>
   trend_band (recent_trend flat_months) = Declining \<and>
   trend_band (recent_trend_average_spec (monthly_pct_change flat_months)) = Positive"
  by code_simp

subsection \<open>Day-of-week aggregation\<close>

lemma map_of_tabulate:
  "map_of (map (\<lambda>k. (k, f k)) ks) k = (if k \<in> set ks then Some (f k) else None)"
  by (induction ks) auto

lemma groupby_mean_tabulate:
  "groupby_mean key rs =
     map (\<lambda>k. (k, Fin (sum_list (map sales (filter (\<lambda>r. key r = k) rs))
                         / of_nat (length (filter (\<lambda>r. key r = k) rs)))))
       (sort (remdups (map key rs)))"
  by (simp add: groupby_mean_def groupby_def)

lemma map_of_groupby_mean:
  "map_of (groupby_mean key rs) k =
     (if k \<in> key ` set rs
      then Some (Fin (sum_list (map sales (filter (\<lambda>r. key r = k) rs))
                       / of_nat (length (filter (\<lambda>r. key r = k) rs))))
      else None)"
  unfolding groupby_mean_tabulate by (simp add: map_of_tabulate)

lemma filter_empty_image: "(filter (\<lambda>r. key r = k) rs = []) = (k \<notin> key ` set rs)"
  by (auto simp: filter_empty_conv)

lemma dow_sales_value:
  "dow_sales (set_day_of_week df) = map (\<lambda>d. (d, weekday_mean (rows df) d)) day_order"
proof -
  let ?g = "\<lambda>r. r\<lparr>day_of_week := day_name (date r)\<rparr>"
  have f: "filter (\<lambda>r. day_of_week r = d) (map ?g (rows df))
      = map ?g (filter (\<lambda>r. day_name (date r) = d) (rows df))" for d
    by (simp add: filter_map o_def)
  have m: "map_of (groupby_mean day_of_week (map ?g (rows df))) d
      = (if filter (\<lambda>r. day_name (date r) = d) (rows df) = [] then None
         else Some (weekday_mean (rows df) d))" for d
    unfolding map_of_groupby_mean f
    by (auto simp: weekday_mean_def Let_def o_def filter_empty_conv image_iff)
  show ?thesis
    unfolding dow_sales_def reindex_def set_day_of_week_def
    by (simp add: m weekday_mean_def Let_def)
qed

lemma weekday_mean_mset:
  assumes "mset rs' = mset rs"
  shows "weekday_mean rs' d = weekday_mean rs d"
proof -
  let ?P = "\<lambda>r. day_name (date r) = d"
  have a: "mset (filter ?P rs') = mset (filter ?P rs)"
    using assms by simp
  have "mset (map sales (filter ?P rs')) = mset (map sales (filter ?P rs))"
    using a by (simp only: mset_map)
  then have "sum_mset (mset (map sales (filter ?P rs'))) = sum_mset (mset (map sales (filter ?P rs)))"
    by (rule arg_cong)
  then have s: "sum_list (map sales (filter ?P rs')) = sum_list (map sales (filter ?P rs))"
    by (simp only: sum_mset_sum_list)
  have "size (mset (filter ?P rs')) = size (mset (filter ?P rs))"
    using a by (simp only:)
  then have l: "length (filter ?P rs') = length (filter ?P rs)"
    by (simp only: size_mset)
  then have e: "(filter ?P rs' = []) = (filter ?P rs = [])"
    by (simp only: length_0_conv [symmetric])
  show ?thesis
    by (simp add: weekday_mean_def Let_def s l e)
qed

text \<open>
  C7.  For every frame, the day-of-week series of \<open>display_timing_insights\<close> and of
  \<open>plot_day_of_week_pattern\<close> has the seven keys Monday to Sunday in that fixed order,
  which is not the alphabetical one; the value of a day is the mean of \<open>sales\<close> over the
  rows whose date falls on that weekday (null when there is none), whatever the column
  \<open>day_of_week\<close> held before; and the series is the same for every ordering of the rows.
\<close>

theorem day_of_week_order:
  "map fst (dow_sales (set_day_of_week df)) = day_order \<and>
   map fst (daily_avg (set_day_of_week df)) = day_order \<and>
   map snd (dow_sales (set_day_of_week df)) = map (weekday_mean (rows df)) day_order \<and>
   map snd (daily_avg (set_day_of_week df)) = map (weekday_mean (rows df)) day_order \<and>
   (\<forall>df'. mset (rows df') = mset (rows df) \<longrightarrow>
      dow_sales (set_day_of_week df') = dow_sales (set_day_of_week df) \<and>
      daily_avg (set_day_of_week df') = daily_avg (set_day_of_week df)) \<and>
   day_order =
     [''Monday'', ''Tuesday'', ''Wednesday'', ''Thursday'', ''Friday'', ''Saturday'', ''Sunday''] \<and>
   sort day_order \<noteq> day_order"
proof -
  have same: "daily_avg d = dow_sales d" for d
    by (simp add: daily_avg_def dow_sales_def)
  have keys: "map fst (dow_sales (set_day_of_week df)) = day_order"
    by (simp add: dow_sales_value o_def)
  have vals: "map snd (dow_sales (set_day_of_week df)) = map (weekday_mean (rows df)) day_order"
    by (simp add: dow_sales_value o_def)
  have perm: "\<forall>df'. mset (rows df') = mset (rows df) \<longrightarrow>
      dow_sales (set_day_of_week df') = dow_sales (set_day_of_week df) \<and>
      daily_avg (set_day_of_week df') = daily_avg (set_day_of_week df)"
  proof (intro allI impI)
    fix df' :: frame
    assume m: "mset (rows df') = mset (rows df)"
    have "weekday_mean (rows df') = weekday_mean (rows df)"
      by (rule ext) (rule weekday_mean_mset [OF m])
    then show "dow_sales (set_day_of_week df') = dow_sales (set_day_of_week df) \<and>
      daily_avg (set_day_of_week df') = daily_avg (set_day_of_week df)"
      by (simp only: same dow_sales_value)
  qed
  have names: "day_order =
     [''Monday'', ''Tuesday'', ''Wednesday'', ''Thursday'', ''Friday'', ''Saturday'', ''Sunday'']"
    by (rule day_order_def)
  have alpha: "sort day_order \<noteq> day_order"
    by code_simp
  from keys vals have keys': "map fst (daily_avg (set_day_of_week df)) = day_order"
    and vals': "map snd (daily_avg (set_day_of_week df)) = map (weekday_mean (rows df)) day_order"
    by (simp_all only: same)
  from keys keys' vals vals' perm names alpha show ?thesis
    by blast
qed

theorem day_of_week_order_witness:
  "mset (rows (week_frame\<lparr>rows := rev one_week\<rparr>)) = mset (rows week_frame) \<and>
   dow_sales (set_day_of_week (week_frame\<lparr>rows := rev one_week\<rparr>)) =
     [(''Monday'', Fin 20), (''Tuesday'', Fin 20), (''Wednesday'', NaN), (''Thursday'', Fin 40),
      (''Friday'', Fin 50), (''Saturday'', Fin 60), (''Sunday'', Fin 70)] \<and>
   dow_sales (set_day_of_week week_frame) =
     [(''Monday'', Fin 20), (''Tuesday'', Fin 20), (''Wednesday'', NaN), (''Thursday'', Fin 40),
      (''Friday'', Fin 50), (''Saturday'', Fin 60), (''Sunday'', Fin 70)]"
proof -
  have p: "mset (rows (week_frame\<lparr>rows := rev one_week\<rparr>)) = mset (rows week_frame)"
    by (simp add: week_frame_def)
  have e: "dow_sales (set_day_of_week week_frame) =
     [(''Monday'', Fin 20), (''Tuesday'', Fin 20), (''Wednesday'', NaN), (''Thursday'', Fin 40),
      (''Friday'', Fin 50), (''Saturday'', Fin 60), (''Sunday'', Fin 70)]"
    by code_simp
  from day_of_week_order [of week_frame] p
  have "dow_sales (set_day_of_week (week_frame\<lparr>rows := rev one_week\<rparr>))
      = dow_sales (set_day_of_week week_frame)"
    by blast
  with p e show ?thesis by simp
qed


subsection \<open>Store by category gaps\<close>

lemma series_mean_Fin:
  "xs \<noteq> [] \<Longrightarrow> series_mean (map Fin xs) = Fin (sum_list xs / of_nat (length xs))"
  by (simp add: series_mean_def series_sum_def notna_def foldl_fadd_Fin)

lemma sort_remdups_cong: "set xs = set ys \<Longrightarrow> sort (remdups xs) = sort (remdups ys)"
  by (rule sorted_distinct_set_unique) simp_all

lemma store_cat_keys:
  "map fst (store_cat rs) = sort (remdups (map (\<lambda>r. (store_name r, category r)) rs))"
  by (simp add: store_cat_def groupby_mean_tabulate o_def)

lemma pivot_index: "t_index (pivot rs) = sort (remdups (map store_name rs))"
proof -
  have "set (map (fst \<circ> fst) (store_cat rs)) = fst ` set (map fst (store_cat rs))"
    by (simp add: image_image)
  also have "\<dots> = set (map store_name rs)"
    unfolding store_cat_keys by (simp add: image_image)
  finally have "set (map (fst \<circ> fst) (store_cat rs)) = set (map store_name rs)" .
  then show ?thesis
    by (simp add: pivot_def Let_def sort_remdups_cong)
qed

lemma pivot_columns: "t_columns (pivot rs) = sort (remdups (map category rs))"
proof -
  have "set (map (snd \<circ> fst) (store_cat rs)) = snd ` set (map fst (store_cat rs))"
    by (simp add: image_image)
  also have "\<dots> = set (map category rs)"
    unfolding store_cat_keys by (simp add: image_image)
  finally have "set (map (snd \<circ> fst) (store_cat rs)) = set (map category rs)" .
  then show ?thesis
    by (simp add: pivot_def Let_def sort_remdups_cong)
qed

lemma map_of_store_cat:
  "map_of (store_cat rs) (s, c) =
     (if has_data rs s c then Some (Fin (cell_mean rs s c)) else None)"
proof -
  have f: "(\<lambda>r. (store_name r, category r) = (s, c)) = (\<lambda>r. store_name r = s \<and> category r = c)"
    by auto
  show ?thesis
    unfolding store_cat_def map_of_groupby_mean
    by (auto simp: has_data_def cell_mean_def Let_def f image_iff)
qed

lemma pivot_values:
  "t_values (pivot rs) =
     map (\<lambda>s. map (\<lambda>c. pivot_cell rs s c) (t_columns (pivot rs))) (t_index (pivot rs))"
  by (simp add: pivot_def Let_def map_of_store_cat pivot_cell_def)

lemma length_pivot_values: "length (t_values (pivot rs)) = length (t_index (pivot rs))"
  by (simp add: pivot_values)

lemma pivot_nth:
  "i < length (t_index (pivot rs)) \<Longrightarrow> j < length (t_columns (pivot rs)) \<Longrightarrow>
   t_values (pivot rs) ! i ! j = pivot_cell rs (t_index (pivot rs) ! i) (t_columns (pivot rs) ! j)"
  by (simp add: pivot_values)

lemma table_col_pivot:
  "j < length (t_columns (pivot rs)) \<Longrightarrow>
   table_col (pivot rs) j = map (\<lambda>s. pivot_cell rs s (t_columns (pivot rs) ! j)) (t_index (pivot rs))"
  by (simp add: table_col_def pivot_values)

lemma notna_pivot_col:
  "notna (map (\<lambda>s. pivot_cell rs s c) ss) =
     map Fin (map (\<lambda>s. cell_mean rs s c) (filter (\<lambda>s. has_data rs s c) ss))"
  by (induction ss) (simp_all add: notna_def pivot_cell_def)

lemma series_mean_notna': "series_mean xs = series_mean (notna xs)"
  by (simp add: series_mean_def series_sum_def notna_def)

lemma column_has_store:
  assumes "c \<in> set (map category rs)"
  shows "filter (\<lambda>s. has_data rs s c) (sort (remdups (map store_name rs))) \<noteq> []"
proof -
  from assms obtain r where r: "r \<in> set rs" "category r = c" by auto
  then have "has_data rs (store_name r) c"
    by (auto simp: has_data_def)
  moreover have "store_name r \<in> set (sort (remdups (map store_name rs)))"
    using r by simp
  ultimately show ?thesis
    by (auto simp: filter_empty_conv)
qed

lemma category_avg_nth:
  assumes j: "j < length (sort (remdups (map category rs)))"
  shows "category_avg rs ! j = Fin (column_mean rs (sort (remdups (map category rs)) ! j))"
proof -
  let ?c = "sort (remdups (map category rs)) ! j"
  let ?ss = "filter (\<lambda>s. has_data rs s ?c) (sort (remdups (map store_name rs)))"
  have "?c \<in> set (sort (remdups (map category rs)))"
    using j by (rule nth_mem)
  then have c: "?c \<in> set (map category rs)" by simp
  have ne: "map (\<lambda>s. cell_mean rs s ?c) ?ss \<noteq> []"
    using column_has_store [OF c] by simp
  have "category_avg rs ! j = series_mean (table_col (pivot rs) j)"
    using j by (simp add: category_avg_def pivot_columns)
  also have "\<dots> = series_mean (map (\<lambda>s. pivot_cell rs s ?c) (sort (remdups (map store_name rs))))"
    using j by (simp add: table_col_pivot pivot_columns pivot_index)
  also have "\<dots> = series_mean (map Fin (map (\<lambda>s. cell_mean rs s ?c) ?ss))"
    by (subst series_mean_notna') (simp only: notna_pivot_col series_mean_notna' [symmetric])
  also have "\<dots> = Fin (column_mean rs ?c)"
    unfolding series_mean_Fin [OF ne] by (simp add: column_mean_def Let_def)
  finally show ?thesis .
qed

lemma length_category_avg: "length (category_avg rs) = length (t_columns (pivot rs))"
  by (simp add: category_avg_def)

lemma gaps_nth:
  assumes i: "i < length (t_index (pivot rs))" and j: "j < length (t_columns (pivot rs))"
  shows "t_values (gaps rs) ! i ! j = deviation (t_values (pivot rs) ! i ! j) (category_avg rs ! j)"
proof -
  have len: "length (t_values (pivot rs) ! i) = length (t_columns (pivot rs))"
    using i by (simp add: pivot_values)
  show ?thesis
    using i j by (simp add: gaps_def Let_def length_pivot_values len length_category_avg)
qed

lemma gaps_labels: "t_index (gaps rs) = t_index (pivot rs)" "t_columns (gaps rs) = t_columns (pivot rs)"
  by (simp_all add: gaps_def Let_def)


lemma deviation_NaN [simp]: "deviation NaN m = NaN"
  by (cases m) (simp_all add: deviation_def fsub_def)

lemma deviation_zero:
  "deviation (Fin v) (Fin 0) = (if v = 0 then NaN else if 0 < v then PosInf else NegInf)"
  by (simp add: deviation_def fsub_def finf_def)



lemma cell_mean_nonneg:
  "\<forall>r \<in> set rs. 0 \<le> sales r \<Longrightarrow> 0 \<le> cell_mean rs s c"
  by (auto simp: cell_mean_def Let_def intro!: divide_nonneg_nonneg sum_list_nonneg)

lemma column_zero_cells:
  assumes nn: "\<forall>r \<in> set rs. 0 \<le> sales r"
    and z: "column_mean rs c = 0"
    and s: "s \<in> set (sort (remdups (map store_name rs)))"
    and h: "has_data rs s c"
  shows "cell_mean rs s c = 0"
proof -
  let ?ss = "filter (\<lambda>s. has_data rs s c) (sort (remdups (map store_name rs)))"
  from s h have mem: "s \<in> set ?ss" by simp
  then have "0 < length ?ss" by (rule length_pos_if_in_set)
  then have "?ss \<noteq> []" by (cases "?ss") simp_all
  with z have sum: "sum_list (map (\<lambda>s. cell_mean rs s c) ?ss) = 0"
    by (simp add: column_mean_def Let_def)
  have "\<forall>x \<in> set (map (\<lambda>s. cell_mean rs s c) ?ss). 0 \<le> x"
    using cell_mean_nonneg [OF nn] by auto
  with sum have "\<forall>x \<in> set (map (\<lambda>s. cell_mean rs s c) ?ss). x = 0"
    by (simp only: sum_list_nonneg_eq_0_iff)
  with mem show ?thesis by auto
qed

text \<open>
  C3 (as amended).  When the mean of a category column is zero, the gap computation
  raises nothing and keeps the column: the table has all its rows and columns, the column
  mean is 0, and a cell of that column is null if it has no data or is 0, plus or minus
  infinity if it is positive or negative.  With no negative sales, every cell of such a
  column is null.
\<close>

theorem gap_zero_column:
  assumes "stores = sort (remdups (map store_name rs))"
    and "cats = sort (remdups (map category rs))"
    and "i < length stores" and "j < length cats"
    and "column_mean rs (cats ! j) = 0"
  shows "t_index (gaps rs) = stores \<and> t_columns (gaps rs) = cats \<and>
     length (t_values (gaps rs)) = length stores \<and>
     length (t_values (gaps rs) ! i) = length cats \<and>
     category_avg rs ! j = Fin 0 \<and>
     t_values (gaps rs) ! i ! j =
       (if has_data rs (stores ! i) (cats ! j)
        then (if cell_mean rs (stores ! i) (cats ! j) = 0 then NaN
              else if 0 < cell_mean rs (stores ! i) (cats ! j) then PosInf else NegInf)
        else NaN) \<and>
     ((\<forall>r \<in> set rs. 0 \<le> sales r) \<longrightarrow> t_values (gaps rs) ! i ! j = NaN)"
proof -
  from assms have i': "i < length (t_index (pivot rs))" and j': "j < length (t_columns (pivot rs))"
    by (simp_all add: pivot_index pivot_columns)
  from assms have j0: "j < length (sort (remdups (map category rs)))" by simp
  have avg: "category_avg rs ! j = Fin 0"
    using category_avg_nth [OF j0] assms by simp
  have p: "t_values (pivot rs) ! i ! j = pivot_cell rs (stores ! i) (cats ! j)"
    using pivot_nth [OF i' j'] assms by (simp add: pivot_index pivot_columns)
  have g: "t_values (gaps rs) ! i ! j = deviation (pivot_cell rs (stores ! i) (cats ! j)) (Fin 0)"
    using gaps_nth [OF i' j'] by (simp add: p avg)
  have cell: "t_values (gaps rs) ! i ! j =
       (if has_data rs (stores ! i) (cats ! j)
        then (if cell_mean rs (stores ! i) (cats ! j) = 0 then NaN
              else if 0 < cell_mean rs (stores ! i) (cats ! j) then PosInf else NegInf)
        else NaN)"
    unfolding g by (simp add: pivot_cell_def deviation_zero)
  have nonneg: "t_values (gaps rs) ! i ! j = NaN" if nn: "\<forall>r \<in> set rs. 0 \<le> sales r"
  proof (cases "has_data rs (stores ! i) (cats ! j)")
    case True
    have "stores ! i \<in> set (sort (remdups (map store_name rs)))"
      using assms by (metis nth_mem)
    from column_zero_cells [OF nn assms(5) this True] show ?thesis
      using cell True by simp
  next
    case False
    with cell show ?thesis by simp
  qed
  have lens: "length (t_values (gaps rs)) = length stores \<and>
     length (t_values (gaps rs) ! i) = length cats"
    using i' j' assms
    by (simp add: gaps_def Let_def pivot_values length_category_avg pivot_index pivot_columns)
  from avg cell nonneg lens assms show ?thesis
    by (simp add: gaps_labels pivot_index pivot_columns)
qed

theorem gap_zero_column_witness:
  "column_mean nothing_sold ''Food'' = 0 \<and>
   list_all (\<lambda>r. 0 \<le> sales r) nothing_sold \<and>
   t_columns (gaps nothing_sold) = [''Food''] \<and>
   t_values (gaps nothing_sold) ! 0 ! 0 = NaN"
proof -
  have st: "[''A''] = sort (remdups (map store_name nothing_sold))"
    by code_simp
  have ct: "[''Food''] = sort (remdups (map category nothing_sold))"
    by code_simp
  have z: "column_mean nothing_sold ([''Food''] ! 0) = 0"
    by code_simp
  have nn: "\<forall>r \<in> set nothing_sold. 0 \<le> sales r"
    by code_simp
  have h: "has_data nothing_sold ''A'' ''Food''"
    by code_simp
  have v: "cell_mean nothing_sold ''A'' ''Food'' = 0"
    by code_simp
  from gap_zero_column [OF st ct _ _ z, of 0] nn h v
  have "t_columns (gaps nothing_sold) = [''Food''] \<and> t_values (gaps nothing_sold) ! 0 ! 0 = NaN"
    by simp
  with z nn show ?thesis
    by (simp add: list_all_iff)
qed

text \<open>
  One store, one category, sales 0: the column mean is 0, no error is raised, the column
  is still in the table, and its cell is null.
\<close>

theorem gap_skip_counterexample:
  "category_avg nothing_sold = [Fin 0] \<and>
   gaps nothing_sold = \<lparr>t_index = [''A''], t_columns = [''Food''], t_values = [[NaN]]\<rparr>"
  by code_simp


subsection \<open>The input frame is left as it was\<close>

lemma grows_refl [simp]: "grows s s"
  by (simp add: grows_def)

lemma grows_trans: "grows s s' \<Longrightarrow> grows s' s'' \<Longrightarrow> grows s s''"
  by (auto simp: grows_def)

lemma grows_st_calls [simp]: "grows s (st_calls es s)"
  by (simp add: grows_def st_calls_def)

lemma grows_st_calls': "grows s s' \<Longrightarrow> grows s (st_calls es s')"
  by (auto simp: grows_def st_calls_def)

lemma grows_copy_setitem:
  "grows s s' \<Longrightarrow> grows s (setitem_day_of_week (fst (df_copy a s')) (snd (df_copy a s')))"
  by (auto simp: grows_def df_copy_def setitem_day_of_week_def)

lemma grows_display_executive_summary: "grows s (snd (display_executive_summary data s))"
  by (simp add: display_executive_summary_def Let_def grows_st_calls')

lemma grows_display_performer_analysis: "grows s (snd (display_performer_analysis data s))"
  by (simp add: display_performer_analysis_def Let_def grows_st_calls')

lemma grows_display_timing_insights: "grows s (snd (display_timing_insights data s))"
  by (simp add: display_timing_insights_def Let_def split_beta grows_st_calls' grows_copy_setitem
      split: sum.splits)

lemma grows_display_growth_opportunities: "grows s (snd (display_growth_opportunities data s))"
  by (simp add: display_growth_opportunities_def Let_def grows_st_calls')

lemma grows_display_recommendations: "grows s (snd (display_recommendations data s))"
  by (simp add: display_recommendations_def Let_def split_beta grows_st_calls' grows_copy_setitem
      split: sum.splits)

lemma grows_and_then:
  assumes "grows s (snd r)" and "\<And>s'. grows s' (snd (f s'))"
  shows "grows s (snd (and_then r f))"
proof (cases r)
  case (Pair e s')
  show ?thesis
  proof (cases e)
    case None
    with Pair assms(1) assms(2) [of s'] show ?thesis
      by (auto simp: and_then_def intro: grows_trans)
  next
    case (Some x)
    with Pair assms(1) show ?thesis
      by (simp add: and_then_def)
  qed
qed

lemma grows_after_divider:
  "grows s (snd (display_performer_analysis data (st_calls es s)))"
  "grows s (snd (display_timing_insights data (st_calls es s)))"
  "grows s (snd (display_growth_opportunities data (st_calls es s)))"
  "grows s (snd (display_recommendations data (st_calls es s)))"
  by (rule grows_trans [OF grows_st_calls], rule grows_display_performer_analysis
      grows_display_timing_insights grows_display_growth_opportunities
      grows_display_recommendations)+

lemma grows_business_insights_view: "grows s (snd (business_insights_view data s))"
proof -
  let ?s1 = "st_calls [St_title ''Business Insights & Recommendations''] s"
  show ?thesis
  proof (cases "empty_frame (heap ?s1 ! data)")
    case True
    then show ?thesis
      by (simp add: business_insights_view_def Let_def grows_st_calls')
  next
    case False
    have a0: "grows s (snd (None :: exn option,
        st_calls [St_markdown ''This page analyzes your historical sales data''] ?s1))"
      by (simp add: grows_st_calls')
    note a1 = grows_and_then [OF a0 grows_display_executive_summary]
    note a2 = grows_and_then [OF a1 grows_after_divider(1)]
    note a3 = grows_and_then [OF a2 grows_after_divider(2)]
    note a4 = grows_and_then [OF a3 grows_after_divider(3)]
    note a5 = grows_and_then [OF a4 grows_after_divider(4)]
    from False show ?thesis
      unfolding business_insights_view_def Let_def by (simp only: if_False) (rule a5)
  qed
qed

lemma grows_plots:
  "grows s (snd (plot_sales_time_series data a b s))"
  "grows s (snd (plot_day_of_week_pattern data s))"
  "grows s (snd (plot_sales_distribution data s))"
  "grows s (snd (plot_category_distribution data s))"
  "grows s (snd (plot_store_comparison sv data c s))"
  by (simp_all add: plot_sales_time_series_def plot_day_of_week_pattern_def
      plot_sales_distribution_def plot_category_distribution_def plot_store_comparison_def
      Let_def split_beta grows_copy_setitem)

lemma grows_frame: "grows s s' \<Longrightarrow> a < length (heap s) \<Longrightarrow> heap s' ! a = heap s ! a"
  by (auto simp: grows_def nth_append)

lemma grows_take: "grows s s' \<Longrightarrow> take (length (heap s)) (heap s') = heap s"
  by (auto simp: grows_def)

lemma grows_frame_kept: "grows s s' \<Longrightarrow> a < length (heap s) \<Longrightarrow> frame_kept a s s'"
  by (simp add: frame_kept_def grows_frame grows_take)

text \<open>
  C9.  Whatever view or plotting function runs on a frame of the heap, and whether it
  returns or raises, the frame it was given is afterwards the frame it was before (same
  columns, same rows), and so is every other frame that existed: the column
  \<open>day_of_week\<close> is written to a frame allocated by \<open>copy()\<close>.
\<close>

theorem input_frame_unchanged:
  assumes "data < length (heap s)"
  shows "frame_kept data s (snd (business_insights_view data s)) \<and>
     frame_kept data s (snd (display_executive_summary data s)) \<and>
     frame_kept data s (snd (display_performer_analysis data s)) \<and>
     frame_kept data s (snd (display_timing_insights data s)) \<and>
     frame_kept data s (snd (display_growth_opportunities data s)) \<and>
     frame_kept data s (snd (display_recommendations data s)) \<and>
     frame_kept data s (snd (plot_sales_time_series data selected_store selected_store_name s)) \<and>
     frame_kept data s (snd (plot_day_of_week_pattern data s)) \<and>
     frame_kept data s (snd (plot_sales_distribution data s)) \<and>
     frame_kept data s (snd (plot_category_distribution data s)) \<and>
     frame_kept data s (snd (plot_store_comparison sort_values data store_identifier s))"
  using assms
  by (intro conjI grows_frame_kept grows_business_insights_view grows_display_executive_summary
      grows_display_performer_analysis grows_display_timing_insights
      grows_display_growth_opportunities grows_display_recommendations grows_plots)

theorem input_frame_unchanged_witness:
  "0 < length (heap week_state) \<and>
   heap (snd (plot_day_of_week_pattern 0 week_state)) ! 0 = heap week_state ! 0 \<and>
   columns (heap (snd (plot_day_of_week_pattern 0 week_state)) ! 0) = all_columns \<and>
   columns (heap (snd (plot_day_of_week_pattern 0 week_state)) ! 1)
     = all_columns @ [''day_of_week''] \<and>
   heap (snd (display_timing_insights 0 week_state)) ! 0 = heap week_state ! 0 \<and>
   heap (snd (business_insights_view 0 week_state)) ! 0 = heap week_state ! 0"
proof -
  have l: "0 < length (heap week_state)"
    by (simp add: week_state_def)
  note t = input_frame_unchanged [OF l, unfolded frame_kept_def]
  have a: "heap (snd (plot_day_of_week_pattern 0 week_state)) ! 0 = heap week_state ! 0"
    using t by blast
  have b: "heap (snd (display_timing_insights 0 week_state)) ! 0 = heap week_state ! 0"
    using t by blast
  have c: "heap (snd (business_insights_view 0 week_state)) ! 0 = heap week_state ! 0"
    using t by blast
  have d: "columns (heap week_state ! 0) = all_columns"
    by (simp add: week_state_def)
  have e: "columns (heap (snd (plot_day_of_week_pattern 0 week_state)) ! 1)
     = all_columns @ [''day_of_week'']"
    by code_simp
  from l a b c d e show ?thesis
    by simp
qed

text \<open>
  C2.  On an empty frame \<open>business_insights_view\<close> writes the page title and the
  warning that no sales data is available, and returns: no section header, metric,
  message or figure of an analysis section is written, and no exception is raised.  On
  a frame that is not empty the page goes on with the executive summary.
\<close>

theorem empty_dataset_no_sections:
  "(empty_frame (heap s ! data) \<longrightarrow>
      business_insights_view data s =
        (None, s\<lparr>out := out s @ [St_title ''Business Insights & Recommendations'',
                                  St_warning ''No sales data available.'']\<rparr>)) \<and>
   (\<not> empty_frame (heap s ! data) \<longrightarrow>
      (\<exists>es. out (snd (business_insights_view data s)) =
         out s @ [St_title ''Business Insights & Recommendations'',
                  St_markdown ''This page analyzes your historical sales data'',
                  St_header ''Executive Summary''] @ es))"
proof (intro conjI impI)
  assume "empty_frame (heap s ! data)"
  then show "business_insights_view data s =
        (None, s\<lparr>out := out s @ [St_title ''Business Insights & Recommendations'',
                                  St_warning ''No sales data available.'']\<rparr>)"
    by (simp add: business_insights_view_def Let_def st_calls_def)
next
  assume ne: "\<not> empty_frame (heap s ! data)"
  let ?s1 = "st_calls [St_title ''Business Insights & Recommendations''] s"
  let ?s2 = "st_calls [St_markdown ''This page analyzes your historical sales data''] ?s1"
  let ?A = "and_then (None, ?s2) (display_executive_summary data)"
  have oA: "\<exists>es. out (snd ?A) = out s @ [St_title ''Business Insights & Recommendations'',
                  St_markdown ''This page analyzes your historical sales data'',
                  St_header ''Executive Summary''] @ es"
    by (simp add: and_then_def display_executive_summary_def Let_def st_calls_def)
  have a1: "grows (snd ?A) (snd ?A)" by simp
  note a2 = grows_and_then [OF a1 grows_after_divider(1)]
  note a3 = grows_and_then [OF a2 grows_after_divider(2)]
  note a4 = grows_and_then [OF a3 grows_after_divider(3)]
  note a5 = grows_and_then [OF a4 grows_after_divider(4)]
  have ne': "empty_frame (heap ?s1 ! data) = False"
    using ne by (simp add: st_calls_def)
  have fin: "grows (snd ?A) (snd (business_insights_view data s))"
    unfolding business_insights_view_def Let_def by (simp only: ne' if_False) (rule a5)
  then obtain es' where "out (snd (business_insights_view data s)) = out (snd ?A) @ es'"
    by (auto simp: grows_def)
  with oA show "\<exists>es. out (snd (business_insights_view data s)) =
         out s @ [St_title ''Business Insights & Recommendations'',
                  St_markdown ''This page analyzes your historical sales data'',
                  St_header ''Executive Summary''] @ es"
    by auto
qed

theorem empty_dataset_no_sections_witness:
  "empty_frame (heap no_rows_state ! 0) \<and>
   business_insights_view 0 no_rows_state =
     (None, no_rows_state\<lparr>out := [St_title ''Business Insights & Recommendations'',
                                    St_warning ''No sales data available.'']\<rparr>) \<and>
   \<not> empty_frame (heap week_state ! 0) \<and>
   take 3 (out (snd (business_insights_view 0 week_state))) =
     [St_title ''Business Insights & Recommendations'',
      St_markdown ''This page analyzes your historical sales data'',
      St_header ''Executive Summary'']"
proof -
  have e: "empty_frame (heap no_rows_state ! 0)"
    by (simp add: no_rows_state_def empty_frame_def)
  have n: "\<not> empty_frame (heap week_state ! 0)"
    by (simp add: week_state_def empty_frame_def one_week_def all_columns_def)
  have o: "out no_rows_state = []" "out week_state = []"
    by (simp_all add: no_rows_state_def week_state_def)
  note t = empty_dataset_no_sections [of no_rows_state 0]
  note u = empty_dataset_no_sections [of week_state 0]
  from t e have a: "business_insights_view 0 no_rows_state =
     (None, no_rows_state\<lparr>out := [St_title ''Business Insights & Recommendations'',
                                    St_warning ''No sales data available.'']\<rparr>)"
    by (simp add: o)
  from u n obtain es where "out (snd (business_insights_view 0 week_state)) =
     [St_title ''Business Insights & Recommendations'',
      St_markdown ''This page analyzes your historical sales data'',
      St_header ''Executive Summary''] @ es"
    by (auto simp: o)
  then have b: "take 3 (out (snd (business_insights_view 0 week_state))) =
     [St_title ''Business Insights & Recommendations'',
      St_markdown ''This page analyzes your historical sales data'',
      St_header ''Executive Summary'']"
    by simp
  from e a n b show ?thesis by simp
qed

lemma remdups_const: "xs \<noteq> [] \<Longrightarrow> \<forall>x \<in> set xs. x = p \<Longrightarrow> remdups xs = [p]"
proof (induction xs)
  case Nil
  then show ?case by simp
next
  case (Cons x xs)
  then show ?case by (cases xs) auto
qed

lemma single_month_sales:
  assumes "rs \<noteq> []" and "\<forall>r \<in> set rs. to_period_M r = p"
  shows "monthly_sales rs = [(p, Fin (sum_list (map sales rs)))]"
proof -
  have k: "remdups (map to_period_M rs) = [p]"
    using assms by (intro remdups_const) auto
  have f: "filter (\<lambda>r. to_period_M r = p) rs = rs"
    using assms by (simp add: filter_id_conv)
  show ?thesis
    by (simp add: monthly_sales_def groupby_sum_def groupby_def k f)
qed

lemma trend_message_band:
  "trend_message t =
     (case trend_band t of
        Positive \<Rightarrow> St_success ''Positive trend''
      | Stable \<Rightarrow> St_info ''Stable growth''
      | Declining \<Rightarrow> St_warning ''Declining trend'')"
  by (simp add: trend_message_def trend_band_def)

text \<open>
  C10.  When all the dates of a non-empty dataset fall in one calendar month, the
  percent-change series is the single null entry, the recent trend is null, both
  comparisons \<open>recent_trend > 5\<close> and \<open>recent_trend > 0\<close> are false, and the executive
  summary writes the warning of a declining trend.
\<close>

theorem single_month_declining:
  assumes "rs \<noteq> []" and "\<forall>r \<in> set rs. to_period_M r = p"
    and "rows (heap s ! data) = rs"
  shows "map (\<lambda>l. snd (snd l)) (monthly rs) = [NaN] \<and>
     recent_trend rs = NaN \<and>
     \<not> fgt (recent_trend rs) (Fin 5) \<and> \<not> fgt (recent_trend rs) (Fin 0) \<and>
     trend_band (recent_trend rs) = Declining \<and>
     trend_message (recent_trend rs) = St_warning ''Declining trend'' \<and>
     display_executive_summary data s =
       (None, s\<lparr>out := out s @
          [St_header ''Executive Summary'', St_metric ''Total Sales (all time)'',
           St_metric ''Avg Daily Revenue'', St_metric ''Active Stores'',
           St_metric ''Product Range'', St_warning ''Declining trend'',
           St_pyplot ''Monthly Revenue Trend'']\<rparr>)"
proof -
  note ms = single_month_sales [OF assms(1,2)]
  have pc: "monthly_pct_change rs = [NaN]"
    by (simp add: monthly_pct_change_def ms pct_change_def shift1_def fsub_def)
  have m: "map (\<lambda>l. snd (snd l)) (monthly rs) = [NaN]"
    by (simp add: monthly_def ms pc)
  have rt: "recent_trend rs = NaN"
    by (simp add: recent_trend_def pc tail_def series_mean_def notna_def)
  have tm: "trend_message (recent_trend rs) = St_warning ''Declining trend''"
    by (simp add: rt trend_message_def)
  have d: "display_executive_summary data s =
       (None, s\<lparr>out := out s @
          [St_header ''Executive Summary'', St_metric ''Total Sales (all time)'',
           St_metric ''Avg Daily Revenue'', St_metric ''Active Stores'',
           St_metric ''Product Range'', St_warning ''Declining trend'',
           St_pyplot ''Monthly Revenue Trend'']\<rparr>)"
    using assms(3) tm by (simp add: display_executive_summary_def Let_def st_calls_def)
  from m rt tm d show ?thesis
    by (simp add: trend_band_def)
qed

theorem single_month_declining_witness:
  "one_week \<noteq> [] \<and> list_all (\<lambda>r. to_period_M r = (2024, 5)) one_week \<and>
   rows (heap week_state ! 0) = one_week \<and>
   recent_trend one_week = NaN \<and>
   out (snd (display_executive_summary 0 week_state)) =
     [St_header ''Executive Summary'', St_metric ''Total Sales (all time)'',
      St_metric ''Avg Daily Revenue'', St_metric ''Active Stores'',
      St_metric ''Product Range'', St_warning ''Declining trend'',
      St_pyplot ''Monthly Revenue Trend'']"
proof -
  have a: "one_week \<noteq> []"
    by (simp add: one_week_def)
  have b: "\<forall>r \<in> set one_week. to_period_M r = (2024, 5)"
    by code_simp
  have c: "rows (heap week_state ! 0) = one_week"
    by (simp add: week_state_def)
  have o: "out week_state = []"
    by (simp add: week_state_def)
  from single_month_declining [OF a b c] a b c show ?thesis
    by (simp add: o list_all_iff)
qed

lemma set_sort_values_desc: "set (sort_values_desc k xs) = set xs"
proof -
  have i: "set (insert_desc k x ys) = insert x (set ys)" for x ys
    by (induction ys) auto
  have f: "set (foldr (insert_desc k) ys []) = set ys" for ys
    by (induction ys) (simp_all add: i)
  show ?thesis
    by (auto simp: sort_values_desc_def f)
qed

lemma yoy_member:
  "(l \<in> set (yoy item rs)) =
     (\<exists>i cells. l = (i, cells, growth_pct cells) \<and> (i, cells) \<in> set (snd (unstack_year item rs)) \<and>
        NaN \<notin> set cells \<and> growth_pct cells \<noteq> NaN)"
  by (auto simp: yoy_def dropna_def set_sort_values_desc)

text \<open>
  C5, on a dataset of three years.  Item A is sold in the two earliest years (totals 10
  and 20, growth 100 percent) and not in the third; the line of A has a null in the
  third year's column, \<open>dropna()\<close> drops it, and the result reports no item.  On the
  rows of the first two years alone, A is reported with 100 percent.
\<close>

theorem yoy_drops_item_of_both_years:
  "sold_in item_name three_years ''A'' 2020 \<and> sold_in item_name three_years ''A'' 2021 \<and>
   unstack_year item_name three_years =
     ([2020, 2021, 2022], [(''A'', [Fin 10, Fin 20, NaN]), (''B'', [NaN, NaN, Fin 5])]) \<and>
   year_total item_name three_years ''A'' 2020 = 10 \<and>
   year_total item_name three_years ''A'' 2021 = 20 \<and>
   growth_pct [Fin 10, Fin 20, NaN] = Fin ((20 - 10) / 10 * 100) \<and>
   yoy item_name three_years = [] \<and>
   yoy item_name (take 2 three_years) = [(''A'', [Fin 10, Fin 20], Fin 100)]"
  by code_simp


end
